theory Spec2Isabelle
  imports Main "HOL-Library.AList"
begin

section \<open>The collaborators of \<open>sjcl.keyexchange.srp\<close>\<close>

text \<open>
  \<open>src/core/srp.js\<close> is written against three parts of the library that are not
  under \<open>src/\<close>: \<open>sjcl.bitArray\<close>, \<open>sjcl.bn\<close> and \<open>sjcl.hash.sha1\<close>.
  The first two are modelled from section 6 of the specification; the hash and
  \<open>bn.toBits\<close> stay parameters of every function that calls them.
\<close>

subsection \<open>Bit arrays\<close>

text \<open>
  Modelled from the spec: \<open>sjcl.bitArray\<close> (the BitString collaborator) is missing.
  The spec gives it as a sequence of bits with \<open>concat\<close>, \<open>bitLength\<close> and
  \<open>bitSlice\<close>; a bit array is the list of its bits, first (most significant) bit
  first.
\<close>

type_synonym bitArray = "bool list"

definition bitArray_bitLength :: "bitArray \<Rightarrow> int" where
  "bitArray_bitLength a = int (length a)"

definition bitArray_concat :: "bitArray \<Rightarrow> bitArray \<Rightarrow> bitArray" where
  "bitArray_concat a1 a2 = a1 @ a2"

text \<open>
  Modelled from the spec: \<open>bitSlice(bits, start, end)\<close>, the bits from \<open>start\<close> up to,
  not including, \<open>end\<close>. The bounds are JS numbers and \<open>_pad\<close> computes \<open>end\<close> by a
  subtraction, so they are integers here; a slice of zero or negative length is
  empty (section 4.2).
\<close>

definition bitArray_bitSlice :: "bitArray \<Rightarrow> int \<Rightarrow> int \<Rightarrow> bitArray" where
  "bitArray_bitSlice a bstart bend = take (nat (bend - bstart)) (drop (nat bstart) a)"

text \<open>
  Modelled from the spec: how \<open>sjcl.bitArray\<close> packs the bits into a JS array is
  missing, and \<open>srp.js\<close> relies on it: it reads \<open>N.length\<close> and \<open>hN.length\<close>, writes
  \<open>pad[i] = 0\<close> and computes \<open>hN[i] ^ hg[i]\<close>. JS's \<open>^\<close> works on 32-bit integers, and an
  array element is a word of 32 bits, of which only the last of an array may hold
  fewer. So \<open>a.length\<close> is the number of words, the element \<open>0\<close> is 32 zero bits, and
  the operand that \<open>^\<close> sees of element \<open>i\<close> is its 32 bits, zero-filled on the right
  when the word is partial and all zero when the element is \<open>undefined\<close>.
\<close>

definition array_length :: "bitArray \<Rightarrow> nat" where
  "array_length a = (length a + 31) div 32"

definition zero_array :: "nat \<Rightarrow> bitArray" where
  "zero_array n = replicate (32 * n) False"

definition get_word :: "bitArray \<Rightarrow> nat \<Rightarrow> bool list" where
  "get_word a i = take 32 (drop (32 * i) a @ replicate 32 False)"

definition set_word :: "bitArray \<Rightarrow> nat \<Rightarrow> bool list \<Rightarrow> bitArray" where
  "set_word a i w = take (32 * i) a @ w @ drop (32 * (i + 1)) a"

definition xor_word :: "bool list \<Rightarrow> bool list \<Rightarrow> bool list" where
  "xor_word v w = map2 (\<lambda>x y. x \<noteq> y) v w"

subsection \<open>Big integers\<close>

text \<open>
  Modelled from the spec: \<open>sjcl.bn\<close> (the BigInteger collaborator) is missing. The
  spec gives it as an arbitrary-precision integer: \<open>add\<close>, \<open>sub\<close> and \<open>mul\<close> are the
  integer operations, \<open>mod\<close> normalises into \<open>[0, N)\<close>, \<open>mulmod\<close> and \<open>powermod\<close>
  reduce the product and the power. \<open>fromBits\<close> reads a bit array as an unsigned
  number, first bit most significant.
\<close>

type_synonym bn = int

definition bn_fromBits :: "bitArray \<Rightarrow> bn" where
  "bn_fromBits bits = foldl (\<lambda>acc b. 2 * acc + (if b then 1 else 0)) 0 bits"

definition bn_add :: "bn \<Rightarrow> bn \<Rightarrow> bn" where
  "bn_add x y = x + y"

definition bn_sub :: "bn \<Rightarrow> bn \<Rightarrow> bn" where
  "bn_sub x y = x - y"

definition bn_mul :: "bn \<Rightarrow> bn \<Rightarrow> bn" where
  "bn_mul x y = x * y"

definition bn_mod :: "bn \<Rightarrow> bn \<Rightarrow> bn" where
  "bn_mod x n = x mod n"

definition bn_mulmod :: "bn \<Rightarrow> bn \<Rightarrow> bn \<Rightarrow> bn" where
  "bn_mulmod x y n = (x * y) mod n"

definition bn_powermod :: "bn \<Rightarrow> bn \<Rightarrow> bn \<Rightarrow> bn" where
  "bn_powermod b e n = b ^ nat e mod n"

subsection \<open>The hash and the rest\<close>

text \<open>
  \<open>sjcl.hash.sha1.hash\<close> takes a string or a bit array. It and \<open>bn.toBits\<close> are
  parameters: nothing below depends on what they compute.
\<close>

datatype hash_data = Text string | Bits bitArray

record collaborators =
  sha1_hash :: "hash_data \<Rightarrow> bitArray"
  bn_toBits :: "bn \<Rightarrow> bitArray"

section \<open>The group registry\<close>

subsection \<open>JS values\<close>

text \<open>
  What \<open>group.N\<close> and \<open>group.g\<close> hold: the string and the number of the literal
  table, or, once \<open>_initKnownGroups\<close> has run, an \<open>sjcl.bn\<close> object.
\<close>

datatype field = JString string | JNumber int | JBn bn

record 'a group =
  N :: 'a
  g :: 'a

text \<open>
  The mutable properties of the object \<open>sjcl.keyexchange.srp\<close>: the flag of line 157
  and the table of line 170, an object literal, as the list of its keys and values.
\<close>

record srp =
  didInitKnownGroups :: bool
  knownGroups :: "(string \<times> field group) list"

text \<open>
  A group object lives in the table and is handed out by reference; the reference to
  the entry under key \<open>k\<close> is \<open>Object k\<close>. A property that the table does not have
  reads as \<open>undefined\<close>. (Names that every JS object inherits, such as
  \<open>constructor\<close>, are not modelled; no decimal numeral is one.)
\<close>

datatype js_value = Undefined | Object string

text \<open>
  \<open>TypeError\<close> is what JS throws for a property read on \<open>undefined\<close> and for a call
  of a method that a string or a number does not have. \<open>MalformedInput\<close> and
  \<open>UnknownGroup\<close> are the errors of section 7 of the specification; no statement of
  \<open>srp.js\<close> raises \<open>UnknownGroup\<close>.
\<close>

datatype error = TypeError | MalformedInput | UnknownGroup

subsection \<open>Numbers as strings\<close>

text \<open>
  \<open>i.toString()\<close> on a number, for the integers (a bit size is one): the decimal
  digits, after a minus sign when negative. (From \<open>10^21\<close> on JS prints an exponent;
  such a string is not a key of the table either.)
\<close>

definition digit_char :: "nat \<Rightarrow> char" where
  "digit_char d = char_of (48 + d)"

fun digits :: "nat \<Rightarrow> string" where
  "digits n = (if n < 10 then [digit_char n] else digits (n div 10) @ [digit_char (n mod 10)])"

declare digits.simps [simp del]

definition toString :: "int \<Rightarrow> string" where
  "toString n = (if n < 0 then CHR ''-'' # digits (nat (- n)) else digits (nat n))"

text \<open>Reading a decimal numeral back, to compare a number with a key of the table.\<close>

definition dec_value :: "string \<Rightarrow> nat" where
  "dec_value s = foldl (\<lambda>acc c. 10 * acc + (of_char c - 48)) 0 s"

subsection \<open>The \<open>sjcl.bn\<close> constructor\<close>

text \<open>
  Modelled from the spec: \<open>new sjcl.bn(it)\<close> is missing. Section 3 has it
  materialise a hex literal or a small integer into BigInteger form; a BigInteger is
  copied. A string with a character that is no hex digit is \<open>MalformedInput\<close>.
\<close>

definition hex_digit :: "char \<Rightarrow> nat option" where
  "hex_digit c =
    (let k = (of_char c :: nat) in
     if 48 \<le> k \<and> k \<le> 57 then Some (k - 48)
     else if 65 \<le> k \<and> k \<le> 70 then Some (k - 55)
     else if 97 \<le> k \<and> k \<le> 102 then Some (k - 87)
     else None)"

definition hex_value :: "string \<Rightarrow> int" where
  "hex_value s = foldl (\<lambda>acc c. 16 * acc + int (case hex_digit c of Some d \<Rightarrow> d | None \<Rightarrow> 0)) 0 s"

definition bn_new :: "field \<Rightarrow> error + bn" where
  "bn_new it =
    (case it of
       JBn b \<Rightarrow> Inr b
     | JNumber n \<Rightarrow> Inr n
     | JString s \<Rightarrow> if list_all (\<lambda>c. hex_digit c \<noteq> None) s then Inr (hex_value s)
                    else Inl MalformedInput)"

subsection \<open>The literal table, lines 169 to 318\<close>

definition srp_knownGroupSizes :: "int list" where
  "srp_knownGroupSizes = [1024, 1536, 2048, 3072, 4096, 6144, 8192]"

definition knownGroups_1024_N :: string where
  "knownGroups_1024_N =
     ''EEAF0AB9ADB38DD69C33F80AFA8FC5E86072618775FF3C0B9EA2314C''
     @ ''9C256576D674DF7496EA81D3383B4813D692C6E0E0D5D8E250B98BE4''
     @ ''8E495C1D6089DAD15DC7D7B46154D6B6CE8EF4AD69B15D4982559B29''
     @ ''7BCF1885C529F566660E57EC68EDBC3C05726CC02FD4CBF4976EAA9A''
     @ ''FD5138FE8376435B9FC61D2FC0EB06E3''"

definition knownGroups_1536_N :: string where
  "knownGroups_1536_N =
     ''9DEF3CAFB939277AB1F12A8617A47BBBDBA51DF499AC4C80BEEEA961''
     @ ''4B19CC4D5F4F5F556E27CBDE51C6A94BE4607A291558903BA0D0F843''
     @ ''80B655BB9A22E8DCDF028A7CEC67F0D08134B1C8B97989149B609E0B''
     @ ''E3BAB63D47548381DBC5B1FC764E3F4B53DD9DA1158BFD3E2B9C8CF5''
     @ ''6EDF019539349627DB2FD53D24B7C48665772E437D6C7F8CE442734A''
     @ ''F7CCB7AE837C264AE3A9BEB87F8A2FE9B8B5292E5A021FFF5E91479E''
     @ ''8CE7A28C2442C6F315180F93499A234DCF76E3FED135F9BB''"

definition knownGroups_2048_N :: string where
  "knownGroups_2048_N =
     ''AC6BDB41324A9A9BF166DE5E1389582FAF72B6651987EE07FC319294''
     @ ''3DB56050A37329CBB4A099ED8193E0757767A13DD52312AB4B03310D''
     @ ''CD7F48A9DA04FD50E8083969EDB767B0CF6095179A163AB3661A05FB''
     @ ''D5FAAAE82918A9962F0B93B855F97993EC975EEAA80D740ADBF4FF74''
     @ ''7359D041D5C33EA71D281E446B14773BCA97B43A23FB801676BD207A''
     @ ''436C6481F1D2B9078717461A5B9D32E688F87748544523B524B0D57D''
     @ ''5EA77A2775D2ECFA032CFBDBF52FB3786160279004E57AE6AF874E73''
     @ ''03CE53299CCC041C7BC308D82A5698F3A8D0C38271AE35F8E9DBFBB6''
     @ ''94B5C803D89F7AE435DE236D525F54759B65E372FCD68EF20FA7111F''
     @ ''9E4AFF73''"

definition knownGroups_3072_N :: string where
  "knownGroups_3072_N =
     ''FFFFFFFFFFFFFFFFC90FDAA22168C234C4C6628B80DC1CD129024E08''
     @ ''8A67CC74020BBEA63B139B22514A08798E3404DDEF9519B3CD3A431B''
     @ ''302B0A6DF25F14374FE1356D6D51C245E485B576625E7EC6F44C42E9''
     @ ''A637ED6B0BFF5CB6F406B7EDEE386BFB5A899FA5AE9F24117C4B1FE6''
     @ ''49286651ECE45B3DC2007CB8A163BF0598DA48361C55D39A69163FA8''
     @ ''FD24CF5F83655D23DCA3AD961C62F356208552BB9ED529077096966D''
     @ ''670C354E4ABC9804F1746C08CA18217C32905E462E36CE3BE39E772C''
     @ ''180E86039B2783A2EC07A28FB5C55DF06F4C52C9DE2BCBF695581718''
     @ ''3995497CEA956AE515D2261898FA051015728E5A8AAAC42DAD33170D''
     @ ''04507A33A85521ABDF1CBA64ECFB850458DBEF0A8AEA71575D060C7D''
     @ ''B3970F85A6E1E4C7ABF5AE8CDB0933D71E8C94E04A25619DCEE3D226''
     @ ''1AD2EE6BF12FFA06D98A0864D87602733EC86A64521F2B18177B200C''
     @ ''BBE117577A615D6C770988C0BAD946E208E24FA074E5AB3143DB5BFC''
     @ ''E0FD108E4B82D120A93AD2CAFFFFFFFFFFFFFFFF''"

definition knownGroups_4096_N :: string where
  "knownGroups_4096_N =
     ''FFFFFFFFFFFFFFFFC90FDAA22168C234C4C6628B80DC1CD129024E08''
     @ ''8A67CC74020BBEA63B139B22514A08798E3404DDEF9519B3CD3A431B''
     @ ''302B0A6DF25F14374FE1356D6D51C245E485B576625E7EC6F44C42E9''
     @ ''A637ED6B0BFF5CB6F406B7EDEE386BFB5A899FA5AE9F24117C4B1FE6''
     @ ''49286651ECE45B3DC2007CB8A163BF0598DA48361C55D39A69163FA8''
     @ ''FD24CF5F83655D23DCA3AD961C62F356208552BB9ED529077096966D''
     @ ''670C354E4ABC9804F1746C08CA18217C32905E462E36CE3BE39E772C''
     @ ''180E86039B2783A2EC07A28FB5C55DF06F4C52C9DE2BCBF695581718''
     @ ''3995497CEA956AE515D2261898FA051015728E5A8AAAC42DAD33170D''
     @ ''04507A33A85521ABDF1CBA64ECFB850458DBEF0A8AEA71575D060C7D''
     @ ''B3970F85A6E1E4C7ABF5AE8CDB0933D71E8C94E04A25619DCEE3D226''
     @ ''1AD2EE6BF12FFA06D98A0864D87602733EC86A64521F2B18177B200C''
     @ ''BBE117577A615D6C770988C0BAD946E208E24FA074E5AB3143DB5BFC''
     @ ''E0FD108E4B82D120A92108011A723C12A787E6D788719A10BDBA5B26''
     @ ''99C327186AF4E23C1A946834B6150BDA2583E9CA2AD44CE8DBBBC2DB''
     @ ''04DE8EF92E8EFC141FBECAA6287C59474E6BC05D99B2964FA090C3A2''
     @ ''233BA186515BE7ED1F612970CEE2D7AFB81BDD762170481CD0069127''
     @ ''D5B05AA993B4EA988D8FDDC186FFB7DC90A6C08F4DF435C934063199''
     @ ''FFFFFFFFFFFFFFFF''"

definition knownGroups_6144_N :: string where
  "knownGroups_6144_N =
     ''FFFFFFFFFFFFFFFFC90FDAA22168C234C4C6628B80DC1CD129024E08''
     @ ''8A67CC74020BBEA63B139B22514A08798E3404DDEF9519B3CD3A431B''
     @ ''302B0A6DF25F14374FE1356D6D51C245E485B576625E7EC6F44C42E9''
     @ ''A637ED6B0BFF5CB6F406B7EDEE386BFB5A899FA5AE9F24117C4B1FE6''
     @ ''49286651ECE45B3DC2007CB8A163BF0598DA48361C55D39A69163FA8''
     @ ''FD24CF5F83655D23DCA3AD961C62F356208552BB9ED529077096966D''
     @ ''670C354E4ABC9804F1746C08CA18217C32905E462E36CE3BE39E772C''
     @ ''180E86039B2783A2EC07A28FB5C55DF06F4C52C9DE2BCBF695581718''
     @ ''3995497CEA956AE515D2261898FA051015728E5A8AAAC42DAD33170D''
     @ ''04507A33A85521ABDF1CBA64ECFB850458DBEF0A8AEA71575D060C7D''
     @ ''B3970F85A6E1E4C7ABF5AE8CDB0933D71E8C94E04A25619DCEE3D226''
     @ ''1AD2EE6BF12FFA06D98A0864D87602733EC86A64521F2B18177B200C''
     @ ''BBE117577A615D6C770988C0BAD946E208E24FA074E5AB3143DB5BFC''
     @ ''E0FD108E4B82D120A92108011A723C12A787E6D788719A10BDBA5B26''
     @ ''99C327186AF4E23C1A946834B6150BDA2583E9CA2AD44CE8DBBBC2DB''
     @ ''04DE8EF92E8EFC141FBECAA6287C59474E6BC05D99B2964FA090C3A2''
     @ ''233BA186515BE7ED1F612970CEE2D7AFB81BDD762170481CD0069127''
     @ ''D5B05AA993B4EA988D8FDDC186FFB7DC90A6C08F4DF435C934028492''
     @ ''36C3FAB4D27C7026C1D4DCB2602646DEC9751E763DBA37BDF8FF9406''
     @ ''AD9E530EE5DB382F413001AEB06A53ED9027D831179727B0865A8918''
     @ ''DA3EDBEBCF9B14ED44CE6CBACED4BB1BDB7F1447E6CC254B33205151''
     @ ''2BD7AF426FB8F401378CD2BF5983CA01C64B92ECF032EA15D1721D03''
     @ ''F482D7CE6E74FEF6D55E702F46980C82B5A84031900B1C9E59E7C97F''
     @ ''BEC7E8F323A97A7E36CC88BE0F1D45B7FF585AC54BD407B22B4154AA''
     @ ''CC8F6D7EBF48E1D814CC5ED20F8037E0A79715EEF29BE32806A1D58B''
     @ ''B7C5DA76F550AA3D8A1FBFF0EB19CCB1A313D55CDA56C9EC2EF29632''
     @ ''387FE8D76E3C0468043E8F663F4860EE12BF2D5B0B7474D6E694F91E''
     @ ''6DCC4024FFFFFFFFFFFFFFFF''"

definition knownGroups_8192_N :: string where
  "knownGroups_8192_N =
     ''FFFFFFFFFFFFFFFFC90FDAA22168C234C4C6628B80DC1CD129024E08''
     @ ''8A67CC74020BBEA63B139B22514A08798E3404DDEF9519B3CD3A431B''
     @ ''302B0A6DF25F14374FE1356D6D51C245E485B576625E7EC6F44C42E9''
     @ ''A637ED6B0BFF5CB6F406B7EDEE386BFB5A899FA5AE9F24117C4B1FE6''
     @ ''49286651ECE45B3DC2007CB8A163BF0598DA48361C55D39A69163FA8''
     @ ''FD24CF5F83655D23DCA3AD961C62F356208552BB9ED529077096966D''
     @ ''670C354E4ABC9804F1746C08CA18217C32905E462E36CE3BE39E772C''
     @ ''180E86039B2783A2EC07A28FB5C55DF06F4C52C9DE2BCBF695581718''
     @ ''3995497CEA956AE515D2261898FA051015728E5A8AAAC42DAD33170D''
     @ ''04507A33A85521ABDF1CBA64ECFB850458DBEF0A8AEA71575D060C7D''
     @ ''B3970F85A6E1E4C7ABF5AE8CDB0933D71E8C94E04A25619DCEE3D226''
     @ ''1AD2EE6BF12FFA06D98A0864D87602733EC86A64521F2B18177B200C''
     @ ''BBE117577A615D6C770988C0BAD946E208E24FA074E5AB3143DB5BFC''
     @ ''E0FD108E4B82D120A92108011A723C12A787E6D788719A10BDBA5B26''
     @ ''99C327186AF4E23C1A946834B6150BDA2583E9CA2AD44CE8DBBBC2DB''
     @ ''04DE8EF92E8EFC141FBECAA6287C59474E6BC05D99B2964FA090C3A2''
     @ ''233BA186515BE7ED1F612970CEE2D7AFB81BDD762170481CD0069127''
     @ ''D5B05AA993B4EA988D8FDDC186FFB7DC90A6C08F4DF435C934028492''
     @ ''36C3FAB4D27C7026C1D4DCB2602646DEC9751E763DBA37BDF8FF9406''
     @ ''AD9E530EE5DB382F413001AEB06A53ED9027D831179727B0865A8918''
     @ ''DA3EDBEBCF9B14ED44CE6CBACED4BB1BDB7F1447E6CC254B33205151''
     @ ''2BD7AF426FB8F401378CD2BF5983CA01C64B92ECF032EA15D1721D03''
     @ ''F482D7CE6E74FEF6D55E702F46980C82B5A84031900B1C9E59E7C97F''
     @ ''BEC7E8F323A97A7E36CC88BE0F1D45B7FF585AC54BD407B22B4154AA''
     @ ''CC8F6D7EBF48E1D814CC5ED20F8037E0A79715EEF29BE32806A1D58B''
     @ ''B7C5DA76F550AA3D8A1FBFF0EB19CCB1A313D55CDA56C9EC2EF29632''
     @ ''387FE8D76E3C0468043E8F663F4860EE12BF2D5B0B7474D6E694F91E''
     @ ''6DBE115974A3926F12FEE5E438777CB6A932DF8CD8BEC4D073B931BA''
     @ ''3BC832B68D9DD300741FA7BF8AFC47ED2576F6936BA424663AAB639C''
     @ ''5AE4F5683423B4742BF1C978238F16CBE39D652DE3FDB8BEFC848AD9''
     @ ''22222E04A4037C0713EB57A81A23F0C73473FC646CEA306B4BCBC886''
     @ ''2F8385DDFA9D4B7FA2C087E879683303ED5BDD3A062B3CF5B3A278A6''
     @ ''6D2A13F83F44F82DDF310EE074AB6A364597E899A0255DC164F31CC5''
     @ ''0846851DF9AB48195DED7EA1B1D510BD7EE74D73FAF36BC31ECFA268''
     @ ''359046F4EB879F924009438B481C6CD7889A002ED5EE382BC9190DA6''
     @ ''FC026E479558E4475677E9AA9E3050E2765694DFC81F56E880B96E71''
     @ ''60C980DD98EDD3DFFFFFFFFFFFFFFFFF''"

definition srp_knownGroups :: "(string \<times> field group) list" where
  "srp_knownGroups =
    [(''1024'', \<lparr>N = JString knownGroups_1024_N, g = JNumber 2\<rparr>),
     (''1536'', \<lparr>N = JString knownGroups_1536_N, g = JNumber 2\<rparr>),
     (''2048'', \<lparr>N = JString knownGroups_2048_N, g = JNumber 2\<rparr>),
     (''3072'', \<lparr>N = JString knownGroups_3072_N, g = JNumber 5\<rparr>),
     (''4096'', \<lparr>N = JString knownGroups_4096_N, g = JNumber 5\<rparr>),
     (''6144'', \<lparr>N = JString knownGroups_6144_N, g = JNumber 5\<rparr>),
     (''8192'', \<lparr>N = JString knownGroups_8192_N, g = JNumber 19\<rparr>)]"

text \<open>The namespace object as the script leaves it, before any call.\<close>

definition srp_initial :: srp where
  "srp_initial = \<lparr>didInitKnownGroups = False, knownGroups = srp_knownGroups\<rparr>"

text \<open>
  What the table is expected to be once \<open>_initKnownGroups\<close> has run: every \<open>N\<close> the
  number its hex literal denotes, every \<open>g\<close> its number, the flag set.
\<close>

definition srp_materialized :: srp where
  "srp_materialized =
    \<lparr>didInitKnownGroups = True,
     knownGroups =
      [(''1024'', \<lparr>N = JBn (hex_value knownGroups_1024_N), g = JBn 2\<rparr>),
       (''1536'', \<lparr>N = JBn (hex_value knownGroups_1536_N), g = JBn 2\<rparr>),
       (''2048'', \<lparr>N = JBn (hex_value knownGroups_2048_N), g = JBn 2\<rparr>),
       (''3072'', \<lparr>N = JBn (hex_value knownGroups_3072_N), g = JBn 5\<rparr>),
       (''4096'', \<lparr>N = JBn (hex_value knownGroups_4096_N), g = JBn 5\<rparr>),
       (''6144'', \<lparr>N = JBn (hex_value knownGroups_6144_N), g = JBn 5\<rparr>),
       (''8192'', \<lparr>N = JBn (hex_value knownGroups_8192_N), g = JBn 19\<rparr>)]\<rparr>"

subsection \<open>\<open>_initKnownGroups\<close> and \<open>knownGroup\<close>\<close>

text \<open>
  The loop of lines 160 to 165, over the sizes that are left. An exception leaves the
  loop with the table as it is by then: \<open>group.N\<close> on a missing entry, or the
  constructor refusing its argument.
\<close>

fun initKnownGroups_loop ::
  "int list \<Rightarrow> (string \<times> field group) list \<Rightarrow> (string \<times> field group) list \<times> error option"
where
  "initKnownGroups_loop [] kg = (kg, None)"
| "initKnownGroups_loop (sz # sizes) kg =
    (let size_s = toString sz in
     case map_of kg size_s of
       None \<Rightarrow> (kg, Some TypeError)
     | Some grp \<Rightarrow>
        (case bn_new (N grp) of
           Inl e \<Rightarrow> (kg, Some e)
         | Inr n \<Rightarrow>
            (let grp = grp\<lparr>N := JBn n\<rparr>;
                 kg = AList.update size_s grp kg
             in case bn_new (g grp) of
                  Inl e \<Rightarrow> (kg, Some e)
                | Inr gg \<Rightarrow>
                   (let grp = grp\<lparr>g := JBn gg\<rparr>;
                        kg = AList.update size_s grp kg
                    in initKnownGroups_loop sizes kg))))"

definition srp_initKnownGroups :: "srp \<Rightarrow> srp \<times> error option" where
  "srp_initKnownGroups st =
    (case initKnownGroups_loop srp_knownGroupSizes (knownGroups st) of
       (kg, Some e) \<Rightarrow> (st\<lparr>knownGroups := kg\<rparr>, Some e)
     | (kg, None) \<Rightarrow> (st\<lparr>knownGroups := kg, didInitKnownGroups := True\<rparr>, None))"

text \<open>The argument of \<open>knownGroup\<close>: a bit size, as a number or as a string.\<close>

datatype size_arg = Size_number int | Size_string string

definition knownGroup :: "srp \<Rightarrow> size_arg \<Rightarrow> srp \<times> (error + js_value)" where
  "knownGroup st i =
    (let i = (case i of Size_string s \<Rightarrow> s | Size_number n \<Rightarrow> toString n);
         (st, thrown) = (if \<not> didInitKnownGroups st then srp_initKnownGroups st else (st, None))
     in case thrown of
          Some e \<Rightarrow> (st, Inl e)
        | None \<Rightarrow> (st, Inr (case map_of (knownGroups st) i of
                               None \<Rightarrow> Undefined
                             | Some grp \<Rightarrow> Object i)))"

section \<open>The protocol functions\<close>

text \<open>
  A function that takes \<open>group\<close> reads \<open>group.N\<close> and \<open>group.g\<close> and calls \<open>sjcl.bn\<close>
  methods on them: on \<open>undefined\<close>, and on an entry that still holds its literals,
  that is a \<open>TypeError\<close>.
\<close>

definition group_fields :: "srp \<Rightarrow> js_value \<Rightarrow> error + bn group" where
  "group_fields st grp =
    (case grp of
       Undefined \<Rightarrow> Inl TypeError
     | Object k \<Rightarrow>
        (case map_of (knownGroups st) k of
           None \<Rightarrow> Inl TypeError
         | Some entry \<Rightarrow>
            (case (N entry, g entry) of
               (JBn n, JBn gg) \<Rightarrow> Inr \<lparr>N = n, g = gg\<rparr>
             | _ \<Rightarrow> Inl TypeError)))"

subsection \<open>Helpers\<close>

text \<open>
  \<open>_pad(p, N)\<close>, lines 35 to 45: an array of \<open>N.length\<close> zero words, cut to
  \<open>bitLength(N) - bitLength(p)\<close> bits, then \<open>p\<close>.
\<close>

definition srp_pad :: "bitArray \<Rightarrow> bitArray \<Rightarrow> bitArray" where
  "srp_pad p Nb =
    (let pad = zero_array (array_length Nb);
         pad = bitArray_bitSlice pad 0 (bitArray_bitLength Nb - bitArray_bitLength p);
         pad = bitArray_concat pad p
     in pad)"

definition srp_makeK :: "collaborators \<Rightarrow> bn group \<Rightarrow> bitArray" where
  "srp_makeK C G =
    (let Nb = bn_toBits C (N G);
         gb = bn_toBits C (g G)
     in sha1_hash C (Bits (bitArray_concat Nb (srp_pad gb Nb))))"

definition srp_makeX :: "collaborators \<Rightarrow> string \<Rightarrow> string \<Rightarrow> bitArray \<Rightarrow> bitArray" where
  "srp_makeX C I P s =
    (let inner = sha1_hash C (Text (I @ '':'' @ P))
     in sha1_hash C (Bits (bitArray_concat s inner)))"

definition srp_makeU :: "collaborators \<Rightarrow> bitArray \<Rightarrow> bitArray \<Rightarrow> bn group \<Rightarrow> bitArray" where
  "srp_makeU C A B G =
    (let Nb = bn_toBits C (N G)
     in sha1_hash C (Bits (bitArray_concat (srp_pad A Nb) (srp_pad B Nb))))"

subsection \<open>The public functions\<close>

text \<open>
  Each runs on the namespace object and returns it with its result, so that what a
  call leaves behind can be stated.
\<close>

definition makeVerifier ::
  "collaborators \<Rightarrow> srp \<Rightarrow> string \<Rightarrow> string \<Rightarrow> bitArray \<Rightarrow> js_value \<Rightarrow> srp \<times> (error + bitArray)"
where
  "makeVerifier C st I P s grp =
    (let x = srp_makeX C I P s;
         x = bn_fromBits x
     in case group_fields st grp of
          Inl e \<Rightarrow> (st, Inl e)
        | Inr G \<Rightarrow> (st, Inr (bn_toBits C (bn_powermod (g G) x (N G)))))"

definition makeA ::
  "collaborators \<Rightarrow> srp \<Rightarrow> bitArray \<Rightarrow> js_value \<Rightarrow> srp \<times> (error + bitArray)"
where
  "makeA C st a grp =
    (let a = bn_fromBits a
     in case group_fields st grp of
          Inl e \<Rightarrow> (st, Inl e)
        | Inr G \<Rightarrow> (st, Inr (bn_toBits C (bn_powermod (g G) a (N G)))))"

text \<open>
  Lines 98 to 108 of \<open>makeClientKey\<close>, on the fields read from \<open>group\<close>: the locals as
  the function leaves them. \<open>key\<close> is assigned four times; \<open>key104\<close> is its value after
  line 104, the base of the last \<open>powermod\<close>, and \<open>power\<close> the exponent after line 107.
\<close>

definition makeClientKey_locals ::
  "collaborators \<Rightarrow> string \<Rightarrow> string \<Rightarrow> bitArray \<Rightarrow> bitArray \<Rightarrow> bitArray \<Rightarrow> bitArray
    \<Rightarrow> bn group \<Rightarrow> bn \<times> bn \<times> bn"
where
  "makeClientKey_locals C I P s a A B G =
    (let x = bn_fromBits (srp_makeX C I P s);
         k = bn_fromBits (srp_makeK C G);
         u = bn_fromBits (srp_makeU C A B G);
         key = bn_powermod (g G) x (N G);
         key = bn_mulmod key k (N G);
         key104 = bn_mod (bn_sub (bn_fromBits B) key) (N G);
         power = bn_mul u x;
         power = bn_add (bn_fromBits a) power;
         key = bn_powermod key104 power (N G)
     in (key104, power, key))"

definition makeClientKey ::
  "collaborators \<Rightarrow> srp \<Rightarrow> string \<Rightarrow> string \<Rightarrow> bitArray \<Rightarrow> bitArray \<Rightarrow> bitArray \<Rightarrow> bitArray
    \<Rightarrow> js_value \<Rightarrow> srp \<times> (error + bitArray)"
where
  "makeClientKey C st I P s a A B grp =
    (case group_fields st grp of
       Inl e \<Rightarrow> (st, Inl e)
     | Inr G \<Rightarrow>
        (case makeClientKey_locals C I P s a A B G of
           (key104, exponent, key) \<Rightarrow> (st, Inr (bn_toBits C key))))"

text \<open>
  The loop of lines 119 to 121, \<open>hN[i] = hN[i] ^ hg[i]\<close> for every word of \<open>hN\<close>, on
  the array that the hash has just returned.
\<close>

function xor_loop :: "nat \<Rightarrow> bitArray \<Rightarrow> bitArray \<Rightarrow> bitArray" where
  "xor_loop i hN hg =
    (if i < array_length hN
     then xor_loop (i + 1) (set_word hN i (xor_word (get_word hN i) (get_word hg i))) hg
     else hN)"
  by pat_completeness auto
termination
proof (relation "measure (\<lambda>(i, hN, hg). array_length hN - i)")
  show "wf (measure (\<lambda>(i, hN, hg). array_length hN - i))"
    by simp
next
  fix i :: nat and hN hg :: bitArray
  assume lt: "i < array_length hN"
  let ?w = "xor_word (get_word hN i) (get_word hg i)"
  have w: "length ?w = 32"
    by (simp add: xor_word_def get_word_def)
  have words: "array_length a = Suc q" if "32 * q < length a" and "length a \<le> 32 * q + 32"
    for a :: bitArray and q
  proof -
    have "32 * Suc q \<le> length a + 31" using that(1) by simp
    moreover have "length a + 31 < 32 * Suc (Suc q)" using that(2) by simp
    ultimately have "(length a + 31) div 32 = Suc q"
      by (rule div_nat_eqI)
    then show ?thesis by (simp add: array_length_def)
  qed
  have below: "32 * i < length hN"
  proof (rule ccontr)
    assume "\<not> 32 * i < length hN"
    then have "length hN + 31 < 32 * Suc i" by simp
    then have "(length hN + 31) div 32 < Suc i"
      by (simp add: less_mult_imp_div_less mult.commute)
    with lt show False by (simp add: array_length_def)
  qed
  have same: "array_length (set_word hN i ?w) = array_length hN"
  proof (cases "32 * (i + 1) \<le> length hN")
    case True
    then have "length (set_word hN i ?w) = length hN"
      using w by (simp add: set_word_def min_def)
    then show ?thesis by (simp add: array_length_def)
  next
    case False
    then have len: "length (set_word hN i ?w) = 32 * i + 32"
      using w below by (simp add: set_word_def min_def)
    have "array_length (set_word hN i ?w) = Suc i"
      by (rule words) (simp_all add: len)
    moreover have "array_length hN = Suc i"
      using below False by (intro words) simp_all
    ultimately show ?thesis by simp
  qed
  from lt show "((i + 1, set_word hN i ?w, hg), i, hN, hg)
      \<in> measure (\<lambda>(i, hN, hg). array_length hN - i)"
    by (simp add: same)
qed

declare xor_loop.simps [simp del]

definition makeM1 ::
  "collaborators \<Rightarrow> srp \<Rightarrow> string \<Rightarrow> bitArray \<Rightarrow> bitArray \<Rightarrow> bitArray \<Rightarrow> bitArray
    \<Rightarrow> js_value \<Rightarrow> srp \<times> (error + bitArray)"
where
  "makeM1 C st I s A B K grp =
    (case group_fields st grp of
       Inl e \<Rightarrow> (st, Inl e)
     | Inr G \<Rightarrow>
        (let hN = sha1_hash C (Bits (bn_toBits C (N G)));
             hg = sha1_hash C (Bits (bn_toBits C (g G)));
             hN = xor_loop 0 hN hg;
             out = bitArray_concat hN (sha1_hash C (Text I));
             out = bitArray_concat out s;
             out = bitArray_concat out A;
             out = bitArray_concat out B;
             out = bitArray_concat out K;
             out = sha1_hash C (Bits out)
         in (st, Inr out)))"

definition makeM2 ::
  "collaborators \<Rightarrow> srp \<Rightarrow> bitArray \<Rightarrow> bitArray \<Rightarrow> bitArray \<Rightarrow> srp \<times> (error + bitArray)"
where
  "makeM2 C st A M1 K =
    (let out = bitArray_concat A M1;
         out = bitArray_concat out K;
         out = sha1_hash C (Bits out)
     in (st, Inr out))"

subsection \<open>Reachable states\<close>

text \<open>The states of the namespace object that calls of the public functions lead to.\<close>

inductive reachable :: "srp \<Rightarrow> bool" where
  initial: "reachable srp_initial"
| knownGroup: "reachable st \<Longrightarrow> reachable (fst (knownGroup st i))"
| makeVerifier: "reachable st \<Longrightarrow> reachable (fst (makeVerifier C st I P s grp))"
| makeA: "reachable st \<Longrightarrow> reachable (fst (makeA C st a grp))"
| makeClientKey: "reachable st \<Longrightarrow> reachable (fst (makeClientKey C st I P s a A B grp))"
| makeM1: "reachable st \<Longrightarrow> reachable (fst (makeM1 C st I s A B K grp))"
| makeM2: "reachable st \<Longrightarrow> reachable (fst (makeM2 C st A M1 K))"

section \<open>Example inputs\<close>

text \<open>
  Collaborators to run the functions on: a hash whose digest is five words that
  depend on the length of the input only, and a fixed-width \<open>toBits\<close> of eight bits.
\<close>

definition example_collaborators :: collaborators where
  "example_collaborators =
    \<lparr>sha1_hash = (\<lambda>d. replicate 160 (case d of Text t \<Rightarrow> odd (length t) | Bits b \<Rightarrow> odd (length b))),
     bn_toBits = (\<lambda>n. map (\<lambda>i. odd (n div 2 ^ i)) [7, 6, 5, 4, 3, 2, 1, 0])\<rparr>"

text \<open>
  Collaborators with small numbers in the digests: the hash gives five words whose
  value is the length of the input modulo 7, \<open>toBits\<close> the low eight bits.
\<close>

definition counting_collaborators :: collaborators where
  "counting_collaborators =
    \<lparr>sha1_hash = (\<lambda>d. let n = (case d of Text t \<Rightarrow> length t | Bits b \<Rightarrow> length b) mod 7
                     in replicate 157 False @ [odd (n div 4), odd (n div 2), odd n]),
     bn_toBits = (\<lambda>n. map (\<lambda>i. odd (n div 2 ^ i)) [7, 6, 5, 4, 3, 2, 1, 0])\<rparr>"

section \<open>Properties\<close>

subsection \<open>Padding\<close>

lemma bitSlice_zero_array:
  assumes "0 \<le> k" and "k \<le> int (length Nb)"
  shows "bitArray_bitSlice (zero_array (array_length Nb)) 0 k = replicate (nat k) False"
proof -
  have "length Nb \<le> 32 * ((length Nb + 31) div 32)"
    by arith
  with assms have "nat k \<le> 32 * array_length Nb"
    by (simp add: array_length_def)
  then show ?thesis
    by (simp add: bitArray_bitSlice_def zero_array_def min_def)
qed

lemma srp_pad_eq:
  assumes "length v \<le> length Nb"
  shows "srp_pad v Nb = replicate (length Nb - length v) False @ v"
proof -
  have "bitArray_bitSlice (zero_array (array_length Nb)) 0 (int (length Nb) - int (length v))
      = replicate (nat (int (length Nb) - int (length v))) False"
    using assms by (intro bitSlice_zero_array) simp_all
  moreover have "nat (int (length Nb) - int (length v)) = length Nb - length v"
    by simp
  ultimately show ?thesis
    by (simp add: srp_pad_def bitArray_bitLength_def bitArray_concat_def)
qed

text \<open>
  C4. For a value \<open>v\<close> no longer than the modulus bits, \<open>_pad(v, N_bits)\<close> has the bit
  length of \<open>N_bits\<close>, ends with \<open>v\<close> unchanged, begins with zero bits only, and is \<open>v\<close>
  itself when the two lengths are equal.
\<close>

theorem pad_left_pads_to_modulus_length:
  assumes "bitArray_bitLength v \<le> bitArray_bitLength Nb"
  shows "bitArray_bitLength (srp_pad v Nb) = bitArray_bitLength Nb
       \<and> drop (length Nb - length v) (srp_pad v Nb) = v
       \<and> take (length Nb - length v) (srp_pad v Nb) = replicate (length Nb - length v) False
       \<and> (bitArray_bitLength v = bitArray_bitLength Nb \<longrightarrow> srp_pad v Nb = v)"
proof -
  from assms have le: "length v \<le> length Nb"
    by (simp add: bitArray_bitLength_def)
  note eq = srp_pad_eq [OF le]
  from le show ?thesis
    by (simp add: eq bitArray_bitLength_def)
qed

theorem pad_left_pads_witness:
  "bitArray_bitLength [True, False, True] \<le> bitArray_bitLength (replicate 40 True)
   \<and> bitArray_bitLength (srp_pad [True, False, True] (replicate 40 True)) = 40
   \<and> srp_pad [True, False, True] (replicate 40 True) = replicate 37 False @ [True, False, True]"
proof -
  have le: "bitArray_bitLength [True, False, True] \<le> bitArray_bitLength (replicate 40 True)"
    by (simp add: bitArray_bitLength_def)
  from pad_left_pads_to_modulus_length [OF le]
  have len: "bitArray_bitLength (srp_pad [True, False, True] (replicate 40 True)) = 40"
    and low: "drop 37 (srp_pad [True, False, True] (replicate 40 True)) = [True, False, True]"
    and high: "take 37 (srp_pad [True, False, True] (replicate 40 True)) = replicate 37 False"
    by (simp_all add: bitArray_bitLength_def)
  from low high have "srp_pad [True, False, True] (replicate 40 True)
      = replicate 37 False @ [True, False, True]"
    by (metis append_take_drop_id)
  with le len show ?thesis by simp
qed

subsection \<open>What a call leaves of the namespace object\<close>

lemma fst_makeVerifier: "fst (makeVerifier C st I P s grp) = st"
  by (simp add: makeVerifier_def Let_def split: sum.splits)

lemma fst_makeA: "fst (makeA C st a grp) = st"
  by (simp add: makeA_def Let_def split: sum.splits)

lemma fst_makeClientKey: "fst (makeClientKey C st I P s a A B grp) = st"
  by (simp add: makeClientKey_def split: sum.splits prod.splits)

lemma fst_makeM1: "fst (makeM1 C st I s A B K grp) = st"
  by (simp add: makeM1_def Let_def split: sum.splits)

lemma fst_makeM2: "fst (makeM2 C st A M1 K) = st"
  by (simp add: makeM2_def Let_def)

subsection \<open>The registry\<close>

lemma hex_1024: "list_all (\<lambda>c. hex_digit c \<noteq> None) knownGroups_1024_N"
  by (simp add: knownGroups_1024_N_def hex_digit_def)

lemma hex_1536: "list_all (\<lambda>c. hex_digit c \<noteq> None) knownGroups_1536_N"
  by (simp add: knownGroups_1536_N_def hex_digit_def)

lemma hex_2048: "list_all (\<lambda>c. hex_digit c \<noteq> None) knownGroups_2048_N"
  by (simp add: knownGroups_2048_N_def hex_digit_def)

lemma hex_3072: "list_all (\<lambda>c. hex_digit c \<noteq> None) knownGroups_3072_N"
  by (simp add: knownGroups_3072_N_def hex_digit_def)

lemma hex_4096: "list_all (\<lambda>c. hex_digit c \<noteq> None) knownGroups_4096_N"
  by (simp add: knownGroups_4096_N_def hex_digit_def)

lemma hex_6144: "list_all (\<lambda>c. hex_digit c \<noteq> None) knownGroups_6144_N"
  by (simp add: knownGroups_6144_N_def hex_digit_def)

lemma hex_8192: "list_all (\<lambda>c. hex_digit c \<noteq> None) knownGroups_8192_N"
  by (simp add: knownGroups_8192_N_def hex_digit_def)

lemma bn_new_literal:
  "list_all (\<lambda>c. hex_digit c \<noteq> None) s \<Longrightarrow> bn_new (JString s) = Inr (hex_value s)"
  by (simp add: bn_new_def)

lemma bn_new_number: "bn_new (JNumber n) = Inr n"
  by (simp add: bn_new_def)

lemma toString_sizes:
  "toString 1024 = ''1024''" "toString 1536 = ''1536''" "toString 2048 = ''2048''"
  "toString 3072 = ''3072''" "toString 4096 = ''4096''" "toString 6144 = ''6144''"
  "toString 8192 = ''8192''"
  by (simp_all add: toString_def digits.simps digit_char_def char_of_eq_iff)

lemma initKnownGroups_initial: "srp_initKnownGroups srp_initial = (srp_materialized, None)"
  by (simp add: srp_initKnownGroups_def srp_initial_def srp_materialized_def srp_knownGroups_def
      srp_knownGroupSizes_def toString_sizes bn_new_number bn_new_literal [OF hex_1024]
      bn_new_literal [OF hex_1536] bn_new_literal [OF hex_2048] bn_new_literal [OF hex_3072]
      bn_new_literal [OF hex_4096] bn_new_literal [OF hex_6144] bn_new_literal [OF hex_8192])


lemma knownGroup_initial:
  "knownGroup srp_initial i =
    (srp_materialized,
     Inr (case map_of (knownGroups srp_materialized)
                (case i of Size_string s \<Rightarrow> s | Size_number n \<Rightarrow> toString n) of
            None \<Rightarrow> Undefined
          | Some grp \<Rightarrow> Object (case i of Size_string s \<Rightarrow> s | Size_number n \<Rightarrow> toString n)))"
proof -
  have "\<not> didInitKnownGroups srp_initial"
    by (simp add: srp_initial_def)
  then show ?thesis
    by (simp add: knownGroup_def initKnownGroups_initial Let_def)
qed

lemma knownGroup_initialized:
  assumes "didInitKnownGroups st"
  shows "knownGroup st i =
    (st,
     Inr (case map_of (knownGroups st)
                (case i of Size_string s \<Rightarrow> s | Size_number n \<Rightarrow> toString n) of
            None \<Rightarrow> Undefined
          | Some grp \<Rightarrow> Object (case i of Size_string s \<Rightarrow> s | Size_number n \<Rightarrow> toString n)))"
  using assms by (simp add: knownGroup_def Let_def)

lemma didInit_materialized: "didInitKnownGroups srp_materialized"
  by (simp add: srp_materialized_def)

lemma reachable_cases:
  assumes "reachable st"
  shows "st = srp_initial \<or> st = srp_materialized"
  using assms
proof (induction rule: reachable.induct)
  case initial
  show ?case by simp
next
  case (knownGroup st i)
  then show ?case
    by (auto simp add: knownGroup_initial knownGroup_initialized [OF didInit_materialized])
qed (simp_all only: fst_makeVerifier fst_makeA fst_makeClientKey fst_makeM1 fst_makeM2)

lemma knownGroup_reachable:
  assumes "reachable st"
  shows "knownGroup st i =
    (srp_materialized,
     Inr (case map_of (knownGroups srp_materialized)
                (case i of Size_string s \<Rightarrow> s | Size_number n \<Rightarrow> toString n) of
            None \<Rightarrow> Undefined
          | Some grp \<Rightarrow> Object (case i of Size_string s \<Rightarrow> s | Size_number n \<Rightarrow> toString n)))"
  using reachable_cases [OF assms]
  by (auto simp add: knownGroup_initial knownGroup_initialized [OF didInit_materialized])

lemma dec_value_snoc: "dec_value (s @ [c]) = 10 * dec_value s + (of_char c - 48)"
  by (simp add: dec_value_def)

lemma of_char_digit_char: "d < 10 \<Longrightarrow> of_char (digit_char d) - 48 = d"
  by (simp add: digit_char_def)

lemma dec_value_digits: "dec_value (digits n) = n"
proof (induction n rule: digits.induct)
  case (1 n)
  show ?case
  proof (cases "n < 10")
    case True
    then have "digits n = [digit_char n]"
      by (simp add: digits.simps)
    with True show ?thesis
      using dec_value_snoc [of "[]" "digit_char n"]
      by (simp add: of_char_digit_char dec_value_def)
  next
    case False
    then have "digits n = digits (n div 10) @ [digit_char (n mod 10)]"
      by (subst digits.simps) simp
    with False "1.IH" show ?thesis
      by (simp add: dec_value_snoc of_char_digit_char)
  qed
qed

lemma toString_eqD:
  assumes "toString n = s" and "hd s \<noteq> CHR ''-''"
  shows "n = int (dec_value s)"
proof (cases "n < 0")
  case True
  with assms show ?thesis
    by (auto simp add: toString_def)
next
  case False
  with assms(1) have "s = digits (nat n)"
    by (simp add: toString_def)
  with False show ?thesis
    by (simp add: dec_value_digits)
qed

lemma lookup_materialized_Some:
  assumes "map_of (knownGroups srp_materialized) (toString n) = Some grp"
  shows "n \<in> set srp_knownGroupSizes"
proof -
  from assms have "toString n \<in> {''1024'', ''1536'', ''2048'', ''3072'', ''4096'', ''6144'', ''8192''}"
    by (simp add: srp_materialized_def split: if_splits)
  then have "n \<in> int ` dec_value ` {''1024'', ''1536'', ''2048'', ''3072'', ''4096'', ''6144'', ''8192''}"
    using toString_eqD [of n "toString n"] by auto
  then show ?thesis
    by (simp add: dec_value_def srp_knownGroupSizes_def)
qed

lemma lookup_materialized_sizes:
  "map_of (knownGroups srp_materialized) ''1024'' = Some \<lparr>N = JBn (hex_value knownGroups_1024_N), g = JBn 2\<rparr>"
  "map_of (knownGroups srp_materialized) ''1536'' = Some \<lparr>N = JBn (hex_value knownGroups_1536_N), g = JBn 2\<rparr>"
  "map_of (knownGroups srp_materialized) ''2048'' = Some \<lparr>N = JBn (hex_value knownGroups_2048_N), g = JBn 2\<rparr>"
  "map_of (knownGroups srp_materialized) ''3072'' = Some \<lparr>N = JBn (hex_value knownGroups_3072_N), g = JBn 5\<rparr>"
  "map_of (knownGroups srp_materialized) ''4096'' = Some \<lparr>N = JBn (hex_value knownGroups_4096_N), g = JBn 5\<rparr>"
  "map_of (knownGroups srp_materialized) ''6144'' = Some \<lparr>N = JBn (hex_value knownGroups_6144_N), g = JBn 5\<rparr>"
  "map_of (knownGroups srp_materialized) ''8192'' = Some \<lparr>N = JBn (hex_value knownGroups_8192_N), g = JBn 19\<rparr>"
  by (simp_all add: srp_materialized_def)

text \<open>
  C3. As stated, the lookup of a size that is not cataloged fails with \<open>UnknownGroup\<close>;
  \<open>knownGroup(9999)\<close> returns \<open>undefined\<close> and raises nothing.
\<close>

theorem knownGroup_9999_returns_undefined:
  "snd (knownGroup srp_initial (Size_number 9999)) = Inr Undefined
   \<and> snd (knownGroup srp_initial (Size_number 9999)) \<noteq> Inl UnknownGroup"
proof -
  have "map_of (knownGroups srp_materialized) (toString 9999) = None"
    using lookup_materialized_Some [of 9999]
    by (cases "map_of (knownGroups srp_materialized) (toString 9999)")
       (simp_all add: srp_knownGroupSizes_def)
  then show ?thesis
    by (simp add: knownGroup_initial)
qed

text \<open>
  C3, amended. In every reachable state of the namespace object, the lookup of a
  number that is not one of the seven cataloged sizes returns \<open>undefined\<close>, without
  an error, and so does the lookup of its decimal string.
\<close>

theorem knownGroup_unknown_size_undefined:
  assumes "reachable st" and "n \<notin> set srp_knownGroupSizes"
  shows "snd (knownGroup st (Size_number n)) = Inr Undefined
       \<and> snd (knownGroup st (Size_string (toString n))) = Inr Undefined"
proof -
  have "map_of (knownGroups srp_materialized) (toString n) = None"
    using lookup_materialized_Some [of n] assms(2)
    by (cases "map_of (knownGroups srp_materialized) (toString n)") simp_all
  then show ?thesis
    by (simp add: knownGroup_reachable [OF assms(1)])
qed

theorem knownGroup_unknown_size_witness:
  "reachable srp_initial \<and> 9999 \<notin> set srp_knownGroupSizes
   \<and> snd (knownGroup srp_initial (Size_number 9999)) = Inr Undefined
   \<and> snd (knownGroup srp_initial (Size_string (toString 9999))) = Inr Undefined"
proof -
  have r: "reachable srp_initial"
    by (rule reachable.initial)
  have n: "9999 \<notin> set srp_knownGroupSizes"
    by (simp add: srp_knownGroupSizes_def)
  from knownGroup_unknown_size_undefined [OF r n] r n show ?thesis
    by simp
qed

text \<open>
  C9. For a cataloged size, the call with the number and the call with its decimal
  string are the same call: they return the same group object and leave the same
  state, also when the second follows the first.
\<close>

theorem knownGroup_number_or_string:
  assumes "reachable st" and "n \<in> set srp_knownGroupSizes"
  shows "knownGroup st (Size_number n) = knownGroup st (Size_string (toString n))
       \<and> snd (knownGroup st (Size_number n)) = Inr (Object (toString n))
       \<and> snd (knownGroup (fst (knownGroup st (Size_number n))) (Size_string (toString n)))
          = Inr (Object (toString n))"
proof -
  from assms(2) have "map_of (knownGroups srp_materialized) (toString n) \<noteq> None"
    by (auto simp add: srp_knownGroupSizes_def toString_sizes lookup_materialized_sizes)
  moreover have "reachable (fst (knownGroup st (Size_number n)))"
    using assms(1) by (rule reachable.knownGroup)
  ultimately show ?thesis
    by (auto simp add: knownGroup_reachable assms(1))
qed

theorem knownGroup_number_or_string_witness:
  "reachable srp_initial \<and> 1024 \<in> set srp_knownGroupSizes
   \<and> knownGroup srp_initial (Size_number 1024) = knownGroup srp_initial (Size_string ''1024'')
   \<and> snd (knownGroup srp_initial (Size_number 1024)) = Inr (Object ''1024'')"
proof -
  have r: "reachable srp_initial"
    by (rule reachable.initial)
  have n: "1024 \<in> set srp_knownGroupSizes"
    by (simp add: srp_knownGroupSizes_def)
  note both = knownGroup_number_or_string [OF r n, unfolded toString_sizes]
  from both have "knownGroup srp_initial (Size_number 1024) = knownGroup srp_initial (Size_string ''1024'')"
    by (rule conjunct1)
  moreover from both have "snd (knownGroup srp_initial (Size_number 1024)) = Inr (Object ''1024'')"
    by blast
  ultimately show ?thesis
    using r n by blast
qed

lemma hex_digit_less:
  "(case hex_digit c of Some d \<Rightarrow> d | None \<Rightarrow> 0) < 16"
  by (auto simp add: hex_digit_def Let_def)

lemma hex_foldl_bounds:
  assumes "0 \<le> acc"
  shows "acc * 16 ^ length s
         \<le> foldl (\<lambda>acc c. 16 * acc + int (case hex_digit c of Some d \<Rightarrow> d | None \<Rightarrow> 0)) acc s
       \<and> foldl (\<lambda>acc c. 16 * acc + int (case hex_digit c of Some d \<Rightarrow> d | None \<Rightarrow> 0)) acc s
         < (acc + 1) * 16 ^ length s"
  using assms
proof (induction s arbitrary: acc)
  case Nil
  show ?case by simp
next
  case (Cons c s)
  let ?d = "int (case hex_digit c of Some d \<Rightarrow> d | None \<Rightarrow> 0)"
  let ?f = "\<lambda>acc c. 16 * acc + int (case hex_digit c of Some d \<Rightarrow> d | None \<Rightarrow> 0)"
  have d: "0 \<le> ?d" "?d < 16"
    using hex_digit_less [of c] by simp_all
  with Cons.prems have pos: "0 \<le> 16 * acc + ?d"
    by simp
  note IH = Cons.IH [OF pos]
  have lower: "acc * 16 ^ length (c # s) \<le> (16 * acc + ?d) * 16 ^ length s"
  proof -
    have "acc * 16 ^ length (c # s) = (16 * acc) * 16 ^ length s"
      by simp
    also have "\<dots> \<le> (16 * acc + ?d) * 16 ^ length s"
      using d(1) by (intro mult_right_mono) simp_all
    finally show ?thesis .
  qed
  have upper: "(16 * acc + ?d + 1) * 16 ^ length s \<le> (acc + 1) * 16 ^ length (c # s)"
  proof -
    have "(16 * acc + ?d + 1) * 16 ^ length s \<le> (16 * (acc + 1)) * 16 ^ length s"
      using d(2) by (intro mult_right_mono) simp_all
    also have "\<dots> = (acc + 1) * 16 ^ length (c # s)"
      by simp
    finally show ?thesis .
  qed
  from IH have "(16 * acc + ?d) * 16 ^ length s \<le> foldl ?f (16 * acc + ?d) s"
    and "foldl ?f (16 * acc + ?d) s < (16 * acc + ?d + 1) * 16 ^ length s"
    by simp_all
  with lower upper have "acc * 16 ^ length (c # s) \<le> foldl ?f (16 * acc + ?d) s
      \<and> foldl ?f (16 * acc + ?d) s < (acc + 1) * 16 ^ length (c # s)"
    by linarith
  then show ?case
    by (simp only: foldl_Cons)
qed

lemma hex_value_bounds:
  "hex_value s < 16 ^ length s"
  "s = c # cs \<Longrightarrow> hex_digit c = Some d \<Longrightarrow> int d * 16 ^ length cs \<le> hex_value s"
proof -
  show "hex_value s < 16 ^ length s"
    using hex_foldl_bounds [of 0 s] by (simp add: hex_value_def)
next
  assume s: "s = c # cs" and c: "hex_digit c = Some d"
  have "hex_value s
      = foldl (\<lambda>acc c. 16 * acc + int (case hex_digit c of Some d \<Rightarrow> d | None \<Rightarrow> 0)) (int d) cs"
    by (simp add: hex_value_def s c)
  then show "int d * 16 ^ length cs \<le> hex_value s"
    using hex_foldl_bounds [of "int d" cs] by simp
qed

lemma hex_value_bit_length:
  assumes s: "s = c # cs" and c: "hex_digit c = Some d" and d: "8 \<le> d"
  shows "2 ^ (4 * length s - 1) \<le> hex_value s" and "hex_value s < 2 ^ (4 * length s)"
proof -
  have pow16: "(16::int) ^ k = 2 ^ (4 * k)" for k
  proof -
    have "(16::int) ^ k = (2 ^ 4) ^ k" by simp
    also have "\<dots> = 2 ^ (4 * k)" by (rule power_mult [symmetric])
    finally show ?thesis .
  qed
  have "4 * length s - 1 = 3 + 4 * length cs"
    by (simp add: s)
  then have "(2::int) ^ (4 * length s - 1) = 2 ^ 3 * 2 ^ (4 * length cs)"
    by (simp only: power_add)
  also have "\<dots> = 8 * 16 ^ length cs"
    by (simp only: pow16) simp
  also have "\<dots> \<le> int d * 16 ^ length cs"
    using d by (intro mult_right_mono) simp_all
  also have "\<dots> \<le> hex_value s"
    using s c by (rule hex_value_bounds(2))
  finally show "2 ^ (4 * length s - 1) \<le> hex_value s" .
  show "hex_value s < 2 ^ (4 * length s)"
    using hex_value_bounds(1) [of s] by (simp only: pow16)
qed

lemma knownGroups_2048_N_shape:
  "length knownGroups_2048_N = 512"
  "knownGroups_2048_N = CHR ''A'' # tl knownGroups_2048_N"
  by (simp_all add: knownGroups_2048_N_def)

lemma knownGroups_2048_N_bitLength:
  "2 ^ 2047 \<le> hex_value knownGroups_2048_N" "hex_value knownGroups_2048_N < 2 ^ 2048"
proof -
  have A: "hex_digit CHR ''A'' = Some 10"
    by (simp add: hex_digit_def)
  have len: "4 * length knownGroups_2048_N - 1 = 2047" "4 * length knownGroups_2048_N = 2048"
    by (simp_all add: knownGroups_2048_N_shape(1))
  show "2 ^ 2047 \<le> hex_value knownGroups_2048_N"
    using hex_value_bit_length(1) [OF knownGroups_2048_N_shape(2) A] by (simp only: len) simp
  show "hex_value knownGroups_2048_N < 2 ^ 2048"
    using hex_value_bit_length(2) [OF knownGroups_2048_N_shape(2) A] by (simp only: len)
qed

text \<open>
  C7. \<open>knownGroup(2048)\<close> returns the group object whose \<open>N\<close> is a number of 2048 bits
  and whose \<open>g\<close> is 2.
\<close>

theorem knownGroup_2048:
  assumes "reachable st"
  shows "\<exists>st' n. knownGroup st (Size_number 2048) = (st', Inr (Object ''2048''))
           \<and> group_fields st' (Object ''2048'') = Inr \<lparr>N = n, g = 2\<rparr>
           \<and> 2 ^ 2047 \<le> n \<and> n < 2 ^ 2048"
proof -
  have "knownGroup st (Size_number 2048) = (srp_materialized, Inr (Object ''2048''))"
    by (simp add: knownGroup_reachable [OF assms] toString_sizes lookup_materialized_sizes)
  moreover have "group_fields srp_materialized (Object ''2048'')
      = Inr \<lparr>N = hex_value knownGroups_2048_N, g = 2\<rparr>"
    by (simp add: group_fields_def lookup_materialized_sizes)
  ultimately show ?thesis
    using knownGroups_2048_N_bitLength by blast
qed

theorem knownGroup_2048_witness:
  "reachable srp_initial
   \<and> (\<exists>st' n. knownGroup srp_initial (Size_number 2048) = (st', Inr (Object ''2048''))
           \<and> group_fields st' (Object ''2048'') = Inr \<lparr>N = n, g = 2\<rparr>
           \<and> 2 ^ 2047 \<le> n \<and> n < 2 ^ 2048)"
  using knownGroup_2048 [OF reachable.initial] reachable.initial by blast




subsection \<open>The protocol functions\<close>

lemma length_xor_word: "length (xor_word v w) = min (length v) (length w)"
  by (simp add: xor_word_def)

lemma xor_word_take_drop:
  "xor_word (take k (drop j v)) (take k (drop j w)) = take k (drop j (xor_word v w))"
  by (simp add: xor_word_def take_map drop_map take_zip drop_zip)

lemma xor_loop_prefix:
  assumes len: "length hN = length hg" and al: "32 dvd length hN"
    and i: "i \<le> array_length hN"
  shows "xor_loop i (take (32 * i) (xor_word hN hg) @ drop (32 * i) hN) hg = xor_word hN hg"
  using i
proof (induction "array_length hN - i" arbitrary: i)
  case 0
  from al obtain n where n: "length hN = 32 * n" ..
  then have an: "array_length hN = n"
    by (simp add: array_length_def)
  from 0 an have "i = n" by simp
  let ?a = "take (32 * i) (xor_word hN hg) @ drop (32 * i) hN"
  have lx: "length (xor_word hN hg) = length hN"
    by (simp add: length_xor_word len)
  have a: "?a = xor_word hN hg"
    using \<open>i = n\<close> n lx by simp
  have "array_length ?a = n"
    using a lx n by (simp add: array_length_def)
  then have "xor_loop i ?a hg = ?a"
    using \<open>i = n\<close> by (subst xor_loop.simps) simp
  with a show ?case by simp
next
  case (Suc k)
  from al obtain n where n: "length hN = 32 * n" ..
  then have an: "array_length hN = n"
    by (simp add: array_length_def)
  from Suc.hyps(2) an have lt: "i < n" by simp
  then have bound: "32 * i + 32 \<le> length hN"
    using n by simp
  let ?X = "xor_word hN hg"
  let ?a = "take (32 * i) ?X @ drop (32 * i) hN"
  have lx: "length ?X = length hN"
    by (simp add: length_xor_word len)
  have la: "length ?a = length hN"
    using bound lx by simp
  then have aa: "array_length ?a = n"
    using n by (simp add: array_length_def)
  have ltake: "length (take (32 * i) ?X) = 32 * i"
    using bound lx by simp
  have da: "drop (32 * i) ?a = drop (32 * i) hN"
    using ltake by simp
  have gw_a: "get_word ?a i = take 32 (drop (32 * i) hN)"
    unfolding get_word_def da using bound by simp
  have gw_g: "get_word hg i = take 32 (drop (32 * i) hg)"
    unfolding get_word_def using bound len by simp
  have w: "xor_word (get_word ?a i) (get_word hg i) = take 32 (drop (32 * i) ?X)"
    by (simp only: gw_a gw_g xor_word_take_drop)
  have ta: "take (32 * i) ?a = take (32 * i) ?X"
    using ltake by simp
  have dda: "drop (32 * (i + 1)) ?a = drop (32 * (i + 1)) hN"
  proof -
    have "drop (32 * (i + 1)) ?a = drop 32 (drop (32 * i) ?a)"
      by (simp add: add.commute)
    also have "\<dots> = drop 32 (drop (32 * i) hN)"
      by (simp only: da)
    also have "\<dots> = drop (32 * (i + 1)) hN"
      by (simp add: add.commute)
    finally show ?thesis .
  qed
  have "take (32 * i + 32) ?X = take (32 * i) ?X @ take 32 (drop (32 * i) ?X)"
    by (rule take_add)
  moreover have "32 * (i + 1) = 32 * i + 32"
    by simp
  ultimately have "take (32 * (i + 1)) ?X = take (32 * i) ?X @ take 32 (drop (32 * i) ?X)"
    by (simp only:)
  then have step: "set_word ?a i (xor_word (get_word ?a i) (get_word hg i))
      = take (32 * (i + 1)) ?X @ drop (32 * (i + 1)) hN"
    unfolding set_word_def ta w dda by simp
  have "xor_loop i ?a hg = xor_loop (i + 1) (set_word ?a i (xor_word (get_word ?a i) (get_word hg i))) hg"
    using lt aa by (subst xor_loop.simps) simp
  also have "\<dots> = xor_loop (i + 1) (take (32 * (i + 1)) ?X @ drop (32 * (i + 1)) hN) hg"
    by (simp only: step)
  also have "\<dots> = ?X"
  proof (rule Suc.hyps(1))
    show "k = array_length hN - (i + 1)"
      using Suc.hyps(2) by simp
    show "i + 1 \<le> array_length hN"
      using lt an by simp
  qed
  finally show ?case .
qed

lemma xor_loop_aligned:
  assumes "length hN = length hg" and "32 dvd length hN"
  shows "xor_loop 0 hN hg = xor_word hN hg"
  using xor_loop_prefix [OF assms, of 0] by simp

lemma bn_fromBits_nonneg: "0 \<le> bn_fromBits bits"
proof -
  have "0 \<le> acc \<Longrightarrow> 0 \<le> foldl (\<lambda>acc b. 2 * acc + (if b then 1 else 0)) acc bits" for acc :: int
    by (induction bits arbitrary: acc) simp_all
  then show ?thesis
    by (simp add: bn_fromBits_def)
qed

lemma knownGroups_1024_N_positive: "0 < hex_value knownGroups_1024_N"
proof -
  have shape: "knownGroups_1024_N = CHR ''E'' # tl knownGroups_1024_N"
    by (simp add: knownGroups_1024_N_def)
  have E: "hex_digit CHR ''E'' = Some 14"
    by (simp add: hex_digit_def)
  have "(0::int) < 2 ^ (4 * length knownGroups_1024_N - 1)"
    by simp
  also have "\<dots> \<le> hex_value knownGroups_1024_N"
    using shape E by (rule hex_value_bit_length(1)) simp
  finally show ?thesis .
qed

lemma group_fields_1024:
  "group_fields srp_materialized (Object ''1024'') = Inr \<lparr>N = hex_value knownGroups_1024_N, g = 2\<rparr>"
  by (simp add: group_fields_def lookup_materialized_sizes)

text \<open>
  C2. On a materialised group, \<open>makeVerifier\<close> returns the bits of \<open>g^x mod N\<close>, where
  \<open>x\<close> is the number read from the digest \<open>Hash(s || Hash(I || ":" || P))\<close>; the inner
  hash is of the string, the salt is concatenated as it is.
\<close>

theorem makeVerifier_formula:
  assumes "group_fields st grp = Inr G"
  shows "makeVerifier C st I P s grp =
    (st, Inr (bn_toBits C
      (g G ^ nat (bn_fromBits (sha1_hash C (Bits (bitArray_concat s (sha1_hash C (Text (I @ '':'' @ P)))))))
        mod N G)))"
  using assms by (simp add: makeVerifier_def srp_makeX_def bn_powermod_def)

theorem makeVerifier_formula_witness:
  "group_fields srp_materialized (Object ''1024'') = Inr \<lparr>N = hex_value knownGroups_1024_N, g = 2\<rparr>
   \<and> makeVerifier example_collaborators srp_materialized ''alice'' ''password123'' [True, False]
        (Object ''1024'') =
      (srp_materialized, Inr (bn_toBits example_collaborators
        (2 ^ nat (bn_fromBits (sha1_hash example_collaborators (Bits (bitArray_concat [True, False]
                  (sha1_hash example_collaborators (Text ''alice:password123''))))))
          mod hex_value knownGroups_1024_N)))"
  using makeVerifier_formula [OF group_fields_1024, of example_collaborators "''alice''" "''password123''"
      "[True, False]"] group_fields_1024
  by simp

lemma bn_fromBits_leading_zeros: "bn_fromBits (replicate n False @ bits) = bn_fromBits bits"
proof -
  have "foldl (\<lambda>acc b. 2 * acc + (if b then 1 else 0)) (0::int) (replicate n False) = 0"
    by (induction n) simp_all
  then show ?thesis
    by (simp add: bn_fromBits_def)
qed

lemma counting_hash:
  "sha1_hash counting_collaborators (Text t)
    = replicate 157 False @ [odd (length t mod 7 div 4), odd (length t mod 7 div 2), odd (length t mod 7)]"
  "sha1_hash counting_collaborators (Bits b)
    = replicate 157 False @ [odd (length b mod 7 div 4), odd (length b mod 7 div 2), odd (length b mod 7)]"
  by (simp_all add: counting_collaborators_def Let_def)

lemma counting_toBits_length: "length (bn_toBits counting_collaborators n) = 8"
  by (simp add: counting_collaborators_def)

lemma knownGroups_1024_N_large: "32 \<le> hex_value knownGroups_1024_N"
proof -
  have shape: "knownGroups_1024_N = CHR ''E'' # tl knownGroups_1024_N"
    by (simp add: knownGroups_1024_N_def)
  have len: "length knownGroups_1024_N = 256"
    by (simp add: knownGroups_1024_N_def)
  have E: "hex_digit CHR ''E'' = Some 14"
    by (simp add: hex_digit_def)
  have "(2::int) ^ 5 \<le> 2 ^ (4 * length knownGroups_1024_N - 1)"
    by (rule power_increasing) (simp_all add: len)
  also have "\<dots> \<le> hex_value knownGroups_1024_N"
    using shape E by (rule hex_value_bit_length(1)) simp
  finally show ?thesis
    by simp
qed

text \<open>
  C1. On a materialised group with a positive modulus, \<open>makeClientKey\<close> returns the
  bits of \<open>base ^ exponent mod N\<close>. The value that line 104 leaves in \<open>key\<close> is
  \<open>base = (B - k * (g^x mod N)) mod N\<close> and lies in \<open>[0, N)\<close>; the value that line 107
  leaves in \<open>power\<close> is \<open>exponent = a + u * x\<close>, the integer sum and product; and \<open>x\<close>,
  \<open>k\<close>, \<open>u\<close> are read from the digests \<open>Hash(s || Hash(I || ":" || P))\<close>,
  \<open>Hash(N || pad(g, N))\<close> and \<open>Hash(pad(A, N) || pad(B, N))\<close>.
\<close>

theorem makeClientKey_formula:
  assumes "group_fields st grp = Inr G" and "0 < N G"
  shows "let Nb = bn_toBits C (N G);
             gb = bn_toBits C (g G);
             x = bn_fromBits (sha1_hash C (Bits (bitArray_concat s (sha1_hash C (Text (I @ '':'' @ P))))));
             k = bn_fromBits (sha1_hash C (Bits (bitArray_concat Nb (srp_pad gb Nb))));
             u = bn_fromBits (sha1_hash C (Bits (bitArray_concat (srp_pad A Nb) (srp_pad B Nb))));
             base = (bn_fromBits B - k * (g G ^ nat x mod N G)) mod N G;
             exponent = bn_fromBits a + u * x
         in makeClientKey_locals C I P s a A B G = (base, exponent, base ^ nat exponent mod N G)
            \<and> makeClientKey C st I P s a A B grp = (st, Inr (bn_toBits C (base ^ nat exponent mod N G)))
            \<and> 0 \<le> fst (makeClientKey_locals C I P s a A B G)
            \<and> fst (makeClientKey_locals C I P s a A B G) < N G
            \<and> 0 \<le> exponent"
proof -
  define x where "x = bn_fromBits (sha1_hash C (Bits (bitArray_concat s (sha1_hash C (Text (I @ '':'' @ P))))))"
  define k where "k = bn_fromBits (sha1_hash C (Bits (bitArray_concat (bn_toBits C (N G))
      (srp_pad (bn_toBits C (g G)) (bn_toBits C (N G))))))"
  define u where "u = bn_fromBits (sha1_hash C (Bits (bitArray_concat (srp_pad A (bn_toBits C (N G)))
      (srp_pad B (bn_toBits C (N G))))))"
  define base where "base = (bn_fromBits B - k * (g G ^ nat x mod N G)) mod N G"
  have key: "bn_mod (bn_sub (bn_fromBits B) (bn_mulmod (bn_powermod (g G) x (N G)) k (N G))) (N G) = base"
  proof -
    have "(bn_fromBits B - (g G ^ nat x mod N G) * k mod N G) mod N G
        = (bn_fromBits B - (g G ^ nat x mod N G) * k) mod N G"
      by (rule mod_diff_right_eq)
    then show ?thesis
      by (simp add: bn_mod_def bn_sub_def bn_mulmod_def bn_powermod_def base_def mult.commute)
  qed
  have locals: "makeClientKey_locals C I P s a A B G
      = (base, bn_fromBits a + u * x, base ^ nat (bn_fromBits a + u * x) mod N G)"
    using key
    by (simp add: makeClientKey_locals_def srp_makeX_def srp_makeK_def srp_makeU_def Let_def
        bn_powermod_def bn_add_def bn_mul_def x_def k_def u_def)
  have call: "makeClientKey C st I P s a A B grp
      = (st, Inr (bn_toBits C (base ^ nat (bn_fromBits a + u * x) mod N G)))"
    using assms(1) by (simp add: makeClientKey_def locals)
  have range: "0 \<le> base" "base < N G"
    using assms(2) by (simp_all add: base_def)
  have "0 \<le> u * x"
    unfolding u_def x_def by (intro mult_nonneg_nonneg bn_fromBits_nonneg)
  then have exp: "0 \<le> bn_fromBits a + u * x"
    using bn_fromBits_nonneg [of a] by simp
  show ?thesis
    unfolding Let_def
    unfolding x_def [symmetric] k_def [symmetric] u_def [symmetric]
    unfolding base_def [symmetric]
    using locals call range exp by simp
qed

theorem makeClientKey_formula_witness:
  "group_fields srp_materialized (Object ''1024'') = Inr \<lparr>N = hex_value knownGroups_1024_N, g = 2\<rparr>
   \<and> 0 < hex_value knownGroups_1024_N
   \<and> makeClientKey_locals counting_collaborators ''alice'' ''password123'' [True, False, True, False]
        [True, True] [True] [True, False, True] \<lparr>N = hex_value knownGroups_1024_N, g = 2\<rparr>
      = (hex_value knownGroups_1024_N - 11, 9,
         (hex_value knownGroups_1024_N - 11) ^ 9 mod hex_value knownGroups_1024_N)
   \<and> makeClientKey counting_collaborators srp_materialized ''alice'' ''password123''
        [True, False, True, False] [True, True] [True] [True, False, True] (Object ''1024'')
      = (srp_materialized, Inr (bn_toBits counting_collaborators
          ((hex_value knownGroups_1024_N - 11) ^ 9 mod hex_value knownGroups_1024_N)))"
proof -
  let ?n = "hex_value knownGroups_1024_N"
  let ?C = counting_collaborators
  have pos: "0 < N \<lparr>N = ?n, g = 2\<rparr>"
    using knownGroups_1024_N_positive by simp
  note formula = makeClientKey_formula [OF group_fields_1024 pos, of ?C
      "[True, False, True, False]" "''alice''" "''password123''" "[True]" "[True, False, True]"
      "[True, True]", unfolded Let_def group.simps]
  have x: "bn_fromBits (sha1_hash ?C (Bits (bitArray_concat [True, False, True, False]
      (sha1_hash ?C (Text (''alice'' @ '':'' @ ''password123'')))))) = 3"
    by (simp add: counting_hash bitArray_concat_def bn_fromBits_leading_zeros) (simp add: bn_fromBits_def)
  have padg: "srp_pad (bn_toBits ?C 2) (bn_toBits ?C ?n) = bn_toBits ?C 2"
    by (simp add: srp_pad_eq counting_toBits_length)
  have k: "bn_fromBits (sha1_hash ?C (Bits (bitArray_concat (bn_toBits ?C ?n)
      (srp_pad (bn_toBits ?C 2) (bn_toBits ?C ?n))))) = 2"
    by (simp add: padg counting_hash bitArray_concat_def counting_toBits_length
        bn_fromBits_leading_zeros) (simp add: bn_fromBits_def)
  have u: "bn_fromBits (sha1_hash ?C (Bits (bitArray_concat (srp_pad [True] (bn_toBits ?C ?n))
      (srp_pad [True, False, True] (bn_toBits ?C ?n))))) = 2"
    by (simp add: srp_pad_eq counting_hash bitArray_concat_def counting_toBits_length
        bn_fromBits_leading_zeros) (simp add: bn_fromBits_def)
  have B: "bn_fromBits [True, False, True] = 5" and a: "bn_fromBits [True, True] = 3"
    by (simp_all add: bn_fromBits_def)
  have base: "(5 - 2 * (2 ^ nat 3 mod ?n)) mod ?n = ?n - 11"
  proof -
    have "(2::int) ^ nat 3 mod ?n = 8"
      using knownGroups_1024_N_large by simp
    moreover have "(- 11) mod ?n = (- 11 + ?n) mod ?n"
      by simp
    moreover have "(- 11 + ?n) mod ?n = - 11 + ?n"
      using knownGroups_1024_N_large by (intro mod_pos_pos_trivial) simp_all
    ultimately show ?thesis
      by simp
  qed
  from formula have "makeClientKey_locals ?C ''alice'' ''password123'' [True, False, True, False]
        [True, True] [True] [True, False, True] \<lparr>N = ?n, g = 2\<rparr>
      = (?n - 11, 9, (?n - 11) ^ 9 mod ?n)
    \<and> makeClientKey ?C srp_materialized ''alice'' ''password123''
        [True, False, True, False] [True, True] [True] [True, False, True] (Object ''1024'')
      = (srp_materialized, Inr (bn_toBits ?C ((?n - 11) ^ 9 mod ?n)))"
    unfolding x k u B a base by simp
  with group_fields_1024 knownGroups_1024_N_positive show ?thesis
    by blast
qed

text \<open>
  C5. On a materialised group, with the two digests of equal length and made of whole
  words (SHA-1 gives five), \<open>makeM1\<close> returns
  \<open>Hash((Hash(N) XOR Hash(g)) || Hash(I) || s || A || B || K)\<close>: the XOR is bit by bit
  over the digests of the bits of \<open>N\<close> and of the unpadded bits of \<open>g\<close>, and the six
  fields stand in this order.
\<close>

theorem makeM1_formula:
  assumes "group_fields st grp = Inr G"
    and "length (sha1_hash C (Bits (bn_toBits C (N G))))
       = length (sha1_hash C (Bits (bn_toBits C (g G))))"
    and "32 dvd length (sha1_hash C (Bits (bn_toBits C (N G))))"
  shows "makeM1 C st I s A B K grp =
    (st, Inr (sha1_hash C (Bits
      (xor_word (sha1_hash C (Bits (bn_toBits C (N G)))) (sha1_hash C (Bits (bn_toBits C (g G))))
       @ sha1_hash C (Text I) @ s @ A @ B @ K))))"
proof -
  have "xor_loop 0 (sha1_hash C (Bits (bn_toBits C (N G)))) (sha1_hash C (Bits (bn_toBits C (g G))))
      = xor_word (sha1_hash C (Bits (bn_toBits C (N G)))) (sha1_hash C (Bits (bn_toBits C (g G))))"
    using assms(2,3) by (rule xor_loop_aligned)
  with assms(1) show ?thesis
    by (simp add: makeM1_def bitArray_concat_def Let_def)
qed

theorem makeM1_formula_witness:
  "group_fields srp_materialized (Object ''1024'') = Inr \<lparr>N = hex_value knownGroups_1024_N, g = 2\<rparr>
   \<and> length (sha1_hash example_collaborators (Bits (bn_toBits example_collaborators (hex_value knownGroups_1024_N))))
       = length (sha1_hash example_collaborators (Bits (bn_toBits example_collaborators 2)))
   \<and> 32 dvd length (sha1_hash example_collaborators (Bits (bn_toBits example_collaborators (hex_value knownGroups_1024_N))))
   \<and> makeM1 example_collaborators srp_materialized ''alice'' [True] [False] [True, True] [False, False]
        (Object ''1024'')
       = (srp_materialized, Inr (sha1_hash example_collaborators (Bits
           (xor_word (sha1_hash example_collaborators (Bits (bn_toBits example_collaborators (hex_value knownGroups_1024_N))))
                     (sha1_hash example_collaborators (Bits (bn_toBits example_collaborators 2)))
            @ sha1_hash example_collaborators (Text ''alice'') @ [True] @ [False] @ [True, True] @ [False, False]))))"
proof -
  let ?G = "\<lparr>N = hex_value knownGroups_1024_N, g = 2\<rparr> :: bn group"
  have eq: "length (sha1_hash example_collaborators (Bits (bn_toBits example_collaborators (N ?G))))
      = length (sha1_hash example_collaborators (Bits (bn_toBits example_collaborators (g ?G))))"
    by (simp add: example_collaborators_def)
  have al: "32 dvd length (sha1_hash example_collaborators (Bits (bn_toBits example_collaborators (N ?G))))"
    by (simp add: example_collaborators_def)
  from makeM1_formula [OF group_fields_1024 eq al] eq al group_fields_1024 show ?thesis
    by simp
qed

text \<open>
  C8. The result of \<open>makeVerifier\<close> depends on the state of the namespace object only
  through what the group argument holds there: two calls with the same \<open>I\<close>, \<open>P\<close> and
  \<open>s\<close> and with groups that read the same return the same result, whatever else
  differs between the two states, and since a call leaves the state as it was, a
  repeated call returns what the first call returned.
\<close>

theorem makeVerifier_deterministic:
  assumes "group_fields st1 grp1 = group_fields st2 grp2"
  shows "snd (makeVerifier C st1 I P s grp1) = snd (makeVerifier C st2 I P s grp2)
       \<and> makeVerifier C (fst (makeVerifier C st1 I P s grp1)) I P s grp1
           = makeVerifier C st1 I P s grp1"
proof
  show "snd (makeVerifier C st1 I P s grp1) = snd (makeVerifier C st2 I P s grp2)"
    using assms by (simp add: makeVerifier_def Let_def split: sum.splits)
  show "makeVerifier C (fst (makeVerifier C st1 I P s grp1)) I P s grp1
      = makeVerifier C st1 I P s grp1"
    by (simp only: fst_makeVerifier)
qed

theorem makeVerifier_deterministic_witness:
  "group_fields srp_materialized (Object ''1024'')
     = group_fields \<lparr>didInitKnownGroups = False,
          knownGroups = [(''mine'', \<lparr>N = JBn (hex_value knownGroups_1024_N), g = JBn 2\<rparr>)]\<rparr>
        (Object ''mine'')
   \<and> snd (makeVerifier counting_collaborators srp_materialized ''alice'' ''password123''
            [True, False, True, False] (Object ''1024''))
       = snd (makeVerifier counting_collaborators
            \<lparr>didInitKnownGroups = False,
             knownGroups = [(''mine'', \<lparr>N = JBn (hex_value knownGroups_1024_N), g = JBn 2\<rparr>)]\<rparr>
            ''alice'' ''password123'' [True, False, True, False] (Object ''mine''))
   \<and> snd (makeVerifier counting_collaborators srp_materialized ''alice'' ''password123''
            [True, False, True, False] (Object ''1024''))
       = Inr [False, False, False, False, True, False, False, False]"
proof -
  let ?n = "hex_value knownGroups_1024_N"
  let ?st = "\<lparr>didInitKnownGroups = False,
      knownGroups = [(''mine'', \<lparr>N = JBn ?n, g = JBn 2\<rparr>)]\<rparr>"
  have same: "group_fields srp_materialized (Object ''1024'') = group_fields ?st (Object ''mine'')"
    by (simp add: group_fields_1024) (simp add: group_fields_def)
  have x: "bn_fromBits (srp_makeX counting_collaborators ''alice'' ''password123''
      [True, False, True, False]) = 3"
    by (simp add: srp_makeX_def counting_hash bitArray_concat_def bn_fromBits_leading_zeros)
       (simp add: bn_fromBits_def)
  have "(2::int) ^ nat 3 mod ?n = 8"
    using knownGroups_1024_N_large by simp
  then have out: "snd (makeVerifier counting_collaborators srp_materialized ''alice'' ''password123''
      [True, False, True, False] (Object ''1024''))
      = Inr [False, False, False, False, True, False, False, False]"
    by (simp add: makeVerifier_def group_fields_1024 x bn_powermod_def)
       (simp add: counting_collaborators_def)
  from makeVerifier_deterministic [OF same] same out show ?thesis
    by blast
qed

text \<open>
  C10. No protocol function writes to the namespace object: after a call of
  \<open>makeVerifier\<close>, \<open>makeA\<close>, \<open>makeClientKey\<close>, \<open>makeM1\<close> or \<open>makeM2\<close> the flag and the
  table are what they were, so the \<open>N\<close> and the \<open>g\<close> read from the group argument are
  the same before and after. The XOR loop of \<open>makeM1\<close> writes to the digest only.
\<close>

theorem protocol_functions_leave_group:
  "fst (makeVerifier C st I P s grp) = st
   \<and> fst (makeA C st a grp) = st
   \<and> fst (makeClientKey C st I P s a A B grp) = st
   \<and> fst (makeM1 C st I s A B K grp) = st
   \<and> fst (makeM2 C st A M1 K) = st
   \<and> group_fields (fst (makeVerifier C st I P s grp)) grp = group_fields st grp
   \<and> group_fields (fst (makeA C st a grp)) grp = group_fields st grp
   \<and> group_fields (fst (makeClientKey C st I P s a A B grp)) grp = group_fields st grp
   \<and> group_fields (fst (makeM1 C st I s A B K grp)) grp = group_fields st grp"
  by (simp only: fst_makeVerifier fst_makeA fst_makeClientKey fst_makeM1 fst_makeM2)

theorem protocol_functions_leave_group_witness:
  "fst (makeM1 example_collaborators srp_materialized ''alice'' [True] [False] [True, True]
         [False, False] (Object ''1024'')) = srp_materialized
   \<and> group_fields (fst (makeM1 example_collaborators srp_materialized ''alice'' [True] [False]
         [True, True] [False, False] (Object ''1024''))) (Object ''1024'')
       = Inr \<lparr>N = hex_value knownGroups_1024_N, g = 2\<rparr>"
proof -
  note frame = protocol_functions_leave_group [of example_collaborators srp_materialized
      "''alice''" "''password123''" "[True]" "Object ''1024''" "[True]" "[False]" "[True, True]"
      "[False, False]" "[True]"]
  from frame have "fst (makeM1 example_collaborators srp_materialized ''alice'' [True] [False]
      [True, True] [False, False] (Object ''1024'')) = srp_materialized"
    by blast
  then show ?thesis
    by (simp add: group_fields_1024)
qed

end
